theory Spec2Isabelle
  imports Main "HOL-Library.Multiset"
begin

section \<open>LanguagePicker: data model\<close>

text \<open>
  The embedding follows \<^verbatim>\<open>src/components/LanguagePicker.tsx\<close>. A JavaScript string is
  modelled as the \<^typ>\<open>string\<close> of its UTF-8 bytes, a value of type \<^verbatim>\<open>string | undefined\<close> as
  \<^typ>\<open>string option\<close>, and the numbers of \<^verbatim>\<open>translationProgress.json\<close> as
  \<^typ>\<open>int\<close>. A \<^verbatim>\<open>throw\<close> is the left summand of a result.
\<close>

record LocaleDisplayInfo =
  localeChoice :: string
  source :: string
  target :: string
  approvalProgress :: int

text \<open>An entry of \<^verbatim>\<open>i18n.config.json\<close>; \<open>localName\<close> is read through \<^verbatim>\<open>?.\<close> and
  \<^verbatim>\<open>||\<close>, so it may be missing.\<close>

record I18nConfigItem =
  code :: string
  name :: string
  localName :: "string option"
  crowdinCode :: string

text \<open>An entry of \<^verbatim>\<open>translationProgress.json\<close> (its field \<^verbatim>\<open>approvalProgress\<close>).\<close>

record ProgressDataItem =
  languageId :: string
  dataApprovalProgress :: int

datatype error =
  MissingI18nConfig string
| MissingLanguageDisplayName string

text \<open>
  What the component reads from outside the file: the two imported tables, the constant
  \<^verbatim>\<open>DEFAULT_LOCALE\<close>, the translation function \<^verbatim>\<open>t\<close> of \<^verbatim>\<open>useTranslation\<close>, the
  platform call \<^verbatim>\<open>new Intl.DisplayNames([l], {type: "language"}).of(c)\<close> as
  \<open>displayNameOf l c\<close>, and \<^verbatim>\<open>router.locale\<close>.
\<close>

record env =
  i18nConfig :: "I18nConfigItem list"
  progressData :: "ProgressDataItem list"
  DEFAULT_LOCALE :: string
  translate :: "string \<Rightarrow> string"
  displayNameOf :: "string \<Rightarrow> string \<Rightarrow> string option"
  routerLocale :: string

section \<open>JavaScript primitives\<close>

text \<open>
  A \<^typ>\<open>string\<close> holds the UTF-8 bytes of a well-formed JavaScript string. Equality,
  concatenation, emptiness and the substring relation of such strings are those of their
  UTF-8 bytes, a UTF-8 sequence never starting inside another one.
\<close>

text \<open>The code points of a string (\<^verbatim>\<open>StringToCodePoints\<close>), with \<open>U+FFFD\<close> for bytes that are
  not UTF-8; \<open>k\<close> continuation bytes are still due and \<open>acc\<close> holds the bits read so far.\<close>

fun decodeFrom :: "nat \<Rightarrow> int \<Rightarrow> char list \<Rightarrow> int list" where
  "decodeFrom k acc [] = (if k = 0 then [] else [0xFFFD])"
| "decodeFrom k acc (b # bs) =
     (let n = (of_char b :: int)
      in if k = 0 then
           (if n < 0x80 then n # decodeFrom 0 0 bs
            else if n < 0xC0 then 0xFFFD # decodeFrom 0 0 bs
            else if n < 0xE0 then decodeFrom 1 (n - 0xC0) bs
            else if n < 0xF0 then decodeFrom 2 (n - 0xE0) bs
            else decodeFrom 3 (n - 0xF0) bs)
         else if 0x80 \<le> n \<and> n < 0xC0 then
           (if k = 1 then (acc * 64 + (n - 0x80)) # decodeFrom 0 0 bs
            else decodeFrom (k - 1) (acc * 64 + (n - 0x80)) bs)
         else 0xFFFD # decodeFrom 0 0 bs)"

definition StringToCodePoints :: "string \<Rightarrow> int list" where
  "StringToCodePoints s = decodeFrom 0 0 s"

definition encodeCodePoint :: "int \<Rightarrow> string" where
  "encodeCodePoint c =
     (if c < 0x80 then [char_of c]
      else if c < 0x800 then [char_of (0xC0 + c div 64), char_of (0x80 + c mod 64)]
      else if c < 0x10000 then
        [char_of (0xE0 + c div 4096), char_of (0x80 + c div 64 mod 64), char_of (0x80 + c mod 64)]
      else
        [char_of (0xF0 + c div 262144), char_of (0x80 + c div 4096 mod 64),
         char_of (0x80 + c div 64 mod 64), char_of (0x80 + c mod 64)])"

text \<open>\<^verbatim>\<open>CodePointsToString\<close>\<close>

definition CodePointsToString :: "int list \<Rightarrow> string" where
  "CodePointsToString cs = concat (map encodeCodePoint cs)"

text \<open>
  The lower-case mappings of the Unicode Character Database (\<^verbatim>\<open>UnicodeData.txt\<close>) as
  ascending ranges \<open>(first, last, step, image of first)\<close>: every \<open>step\<close>-th code point from
  \<open>first\<close> to \<open>last\<close> maps to the image of \<open>first\<close> shifted by the same distance.
\<close>

definition lowercaseMapping :: "(int \<times> int \<times> int \<times> int) list" where
  "lowercaseMapping =
    [
     (0x41, 0x5A, 1, 0x61), (0xC0, 0xD6, 1, 0xE0), (0xD8, 0xDE, 1, 0xF8),
     (0x100, 0x12E, 2, 0x101), (0x132, 0x136, 2, 0x133), (0x139, 0x147, 2, 0x13A),
     (0x14A, 0x176, 2, 0x14B), (0x178, 0x178, 1, 0xFF), (0x179, 0x17D, 2, 0x17A),
     (0x181, 0x181, 1, 0x253), (0x182, 0x184, 2, 0x183), (0x186, 0x186, 1, 0x254),
     (0x187, 0x187, 1, 0x188), (0x189, 0x18A, 1, 0x256), (0x18B, 0x18B, 1, 0x18C),
     (0x18E, 0x18E, 1, 0x1DD), (0x18F, 0x18F, 1, 0x259), (0x190, 0x190, 1, 0x25B),
     (0x191, 0x191, 1, 0x192), (0x193, 0x193, 1, 0x260), (0x194, 0x194, 1, 0x263),
     (0x196, 0x196, 1, 0x269), (0x197, 0x197, 1, 0x268), (0x198, 0x198, 1, 0x199),
     (0x19C, 0x19C, 1, 0x26F), (0x19D, 0x19D, 1, 0x272), (0x19F, 0x19F, 1, 0x275),
     (0x1A0, 0x1A4, 2, 0x1A1), (0x1A6, 0x1A6, 1, 0x280), (0x1A7, 0x1A7, 1, 0x1A8),
     (0x1A9, 0x1A9, 1, 0x283), (0x1AC, 0x1AC, 1, 0x1AD), (0x1AE, 0x1AE, 1, 0x288),
     (0x1AF, 0x1AF, 1, 0x1B0), (0x1B1, 0x1B2, 1, 0x28A), (0x1B3, 0x1B5, 2, 0x1B4),
     (0x1B7, 0x1B7, 1, 0x292), (0x1B8, 0x1B8, 1, 0x1B9), (0x1BC, 0x1BC, 1, 0x1BD),
     (0x1C4, 0x1C4, 1, 0x1C6), (0x1C5, 0x1C5, 1, 0x1C6), (0x1C7, 0x1C7, 1, 0x1C9),
     (0x1C8, 0x1C8, 1, 0x1C9), (0x1CA, 0x1CA, 1, 0x1CC), (0x1CB, 0x1DB, 2, 0x1CC),
     (0x1DE, 0x1EE, 2, 0x1DF), (0x1F1, 0x1F1, 1, 0x1F3), (0x1F2, 0x1F4, 2, 0x1F3),
     (0x1F6, 0x1F6, 1, 0x195), (0x1F7, 0x1F7, 1, 0x1BF), (0x1F8, 0x21E, 2, 0x1F9),
     (0x220, 0x220, 1, 0x19E), (0x222, 0x232, 2, 0x223), (0x23A, 0x23A, 1, 0x2C65),
     (0x23B, 0x23B, 1, 0x23C), (0x23D, 0x23D, 1, 0x19A), (0x23E, 0x23E, 1, 0x2C66),
     (0x241, 0x241, 1, 0x242), (0x243, 0x243, 1, 0x180), (0x244, 0x244, 1, 0x289),
     (0x245, 0x245, 1, 0x28C), (0x246, 0x24E, 2, 0x247), (0x370, 0x372, 2, 0x371),
     (0x376, 0x376, 1, 0x377), (0x37F, 0x37F, 1, 0x3F3), (0x386, 0x386, 1, 0x3AC),
     (0x388, 0x38A, 1, 0x3AD), (0x38C, 0x38C, 1, 0x3CC), (0x38E, 0x38F, 1, 0x3CD),
     (0x391, 0x3A1, 1, 0x3B1), (0x3A3, 0x3AB, 1, 0x3C3), (0x3CF, 0x3CF, 1, 0x3D7),
     (0x3D8, 0x3EE, 2, 0x3D9), (0x3F4, 0x3F4, 1, 0x3B8), (0x3F7, 0x3F7, 1, 0x3F8),
     (0x3F9, 0x3F9, 1, 0x3F2), (0x3FA, 0x3FA, 1, 0x3FB), (0x3FD, 0x3FF, 1, 0x37B),
     (0x400, 0x40F, 1, 0x450), (0x410, 0x42F, 1, 0x430), (0x460, 0x480, 2, 0x461),
     (0x48A, 0x4BE, 2, 0x48B), (0x4C0, 0x4C0, 1, 0x4CF), (0x4C1, 0x4CD, 2, 0x4C2),
     (0x4D0, 0x52E, 2, 0x4D1), (0x531, 0x556, 1, 0x561), (0x10A0, 0x10C5, 1, 0x2D00),
     (0x10C7, 0x10C7, 1, 0x2D27), (0x10CD, 0x10CD, 1, 0x2D2D), (0x13A0, 0x13EF, 1, 0xAB70),
     (0x13F0, 0x13F5, 1, 0x13F8), (0x1C90, 0x1CBA, 1, 0x10D0), (0x1CBD, 0x1CBF, 1, 0x10FD),
     (0x1E00, 0x1E94, 2, 0x1E01), (0x1E9E, 0x1E9E, 1, 0xDF), (0x1EA0, 0x1EFE, 2, 0x1EA1),
     (0x1F08, 0x1F0F, 1, 0x1F00), (0x1F18, 0x1F1D, 1, 0x1F10), (0x1F28, 0x1F2F, 1, 0x1F20),
     (0x1F38, 0x1F3F, 1, 0x1F30), (0x1F48, 0x1F4D, 1, 0x1F40), (0x1F59, 0x1F5F, 2, 0x1F51),
     (0x1F68, 0x1F6F, 1, 0x1F60), (0x1F88, 0x1F8F, 1, 0x1F80), (0x1F98, 0x1F9F, 1, 0x1F90),
     (0x1FA8, 0x1FAF, 1, 0x1FA0), (0x1FB8, 0x1FB9, 1, 0x1FB0), (0x1FBA, 0x1FBB, 1, 0x1F70),
     (0x1FBC, 0x1FBC, 1, 0x1FB3), (0x1FC8, 0x1FCB, 1, 0x1F72), (0x1FCC, 0x1FCC, 1, 0x1FC3),
     (0x1FD8, 0x1FD9, 1, 0x1FD0), (0x1FDA, 0x1FDB, 1, 0x1F76), (0x1FE8, 0x1FE9, 1, 0x1FE0),
     (0x1FEA, 0x1FEB, 1, 0x1F7A), (0x1FEC, 0x1FEC, 1, 0x1FE5), (0x1FF8, 0x1FF9, 1, 0x1F78),
     (0x1FFA, 0x1FFB, 1, 0x1F7C), (0x1FFC, 0x1FFC, 1, 0x1FF3), (0x2126, 0x2126, 1, 0x3C9),
     (0x212A, 0x212A, 1, 0x6B), (0x212B, 0x212B, 1, 0xE5), (0x2132, 0x2132, 1, 0x214E),
     (0x2160, 0x216F, 1, 0x2170), (0x2183, 0x2183, 1, 0x2184), (0x24B6, 0x24CF, 1, 0x24D0),
     (0x2C00, 0x2C2F, 1, 0x2C30), (0x2C60, 0x2C60, 1, 0x2C61), (0x2C62, 0x2C62, 1, 0x26B),
     (0x2C63, 0x2C63, 1, 0x1D7D), (0x2C64, 0x2C64, 1, 0x27D), (0x2C67, 0x2C6B, 2, 0x2C68),
     (0x2C6D, 0x2C6D, 1, 0x251), (0x2C6E, 0x2C6E, 1, 0x271), (0x2C6F, 0x2C6F, 1, 0x250),
     (0x2C70, 0x2C70, 1, 0x252), (0x2C72, 0x2C72, 1, 0x2C73), (0x2C75, 0x2C75, 1, 0x2C76),
     (0x2C7E, 0x2C7F, 1, 0x23F), (0x2C80, 0x2CE2, 2, 0x2C81), (0x2CEB, 0x2CED, 2, 0x2CEC),
     (0x2CF2, 0x2CF2, 1, 0x2CF3), (0xA640, 0xA66C, 2, 0xA641), (0xA680, 0xA69A, 2, 0xA681),
     (0xA722, 0xA72E, 2, 0xA723), (0xA732, 0xA76E, 2, 0xA733), (0xA779, 0xA77B, 2, 0xA77A),
     (0xA77D, 0xA77D, 1, 0x1D79), (0xA77E, 0xA786, 2, 0xA77F), (0xA78B, 0xA78B, 1, 0xA78C),
     (0xA78D, 0xA78D, 1, 0x265), (0xA790, 0xA792, 2, 0xA791), (0xA796, 0xA7A8, 2, 0xA797),
     (0xA7AA, 0xA7AA, 1, 0x266), (0xA7AB, 0xA7AB, 1, 0x25C), (0xA7AC, 0xA7AC, 1, 0x261),
     (0xA7AD, 0xA7AD, 1, 0x26C), (0xA7AE, 0xA7AE, 1, 0x26A), (0xA7B0, 0xA7B0, 1, 0x29E),
     (0xA7B1, 0xA7B1, 1, 0x287), (0xA7B2, 0xA7B2, 1, 0x29D), (0xA7B3, 0xA7B3, 1, 0xAB53),
     (0xA7B4, 0xA7C2, 2, 0xA7B5), (0xA7C4, 0xA7C4, 1, 0xA794), (0xA7C5, 0xA7C5, 1, 0x282),
     (0xA7C6, 0xA7C6, 1, 0x1D8E), (0xA7C7, 0xA7C9, 2, 0xA7C8), (0xA7D0, 0xA7D0, 1, 0xA7D1),
     (0xA7D6, 0xA7D8, 2, 0xA7D7), (0xA7F5, 0xA7F5, 1, 0xA7F6), (0xFF21, 0xFF3A, 1, 0xFF41),
     (0x10400, 0x10427, 1, 0x10428), (0x104B0, 0x104D3, 1, 0x104D8),
     (0x10570, 0x1057A, 1, 0x10597), (0x1057C, 0x1058A, 1, 0x105A3),
     (0x1058C, 0x10592, 1, 0x105B3), (0x10594, 0x10595, 1, 0x105BB),
     (0x10C80, 0x10CB2, 1, 0x10CC0), (0x118A0, 0x118BF, 1, 0x118C0),
     (0x16E40, 0x16E5F, 1, 0x16E60), (0x1E900, 0x1E921, 1, 0x1E922)]"

text \<open>The code points with the property \<^verbatim>\<open>Case_Ignorable\<close>, as ascending ranges.\<close>

definition caseIgnorableRanges :: "(int \<times> int) list" where
  "caseIgnorableRanges =
    [
     (0x27, 0x27), (0x2E, 0x2E), (0x3A, 0x3A), (0x5E, 0x5E), (0x60, 0x60), (0xA8, 0xA8),
     (0xAD, 0xAD), (0xAF, 0xAF), (0xB4, 0xB4), (0xB7, 0xB8), (0x2B0, 0x36F), (0x374, 0x375),
     (0x37A, 0x37A), (0x384, 0x385), (0x387, 0x387), (0x483, 0x489), (0x559, 0x559),
     (0x55F, 0x55F), (0x591, 0x5BD), (0x5BF, 0x5BF), (0x5C1, 0x5C2), (0x5C4, 0x5C5),
     (0x5C7, 0x5C7), (0x5F4, 0x5F4), (0x600, 0x605), (0x610, 0x61A), (0x61C, 0x61C),
     (0x640, 0x640), (0x64B, 0x65F), (0x670, 0x670), (0x6D6, 0x6DD), (0x6DF, 0x6E8),
     (0x6EA, 0x6ED), (0x70F, 0x70F), (0x711, 0x711), (0x730, 0x74A), (0x7A6, 0x7B0),
     (0x7EB, 0x7F5), (0x7FA, 0x7FA), (0x7FD, 0x7FD), (0x816, 0x82D), (0x859, 0x85B),
     (0x888, 0x888), (0x890, 0x891), (0x898, 0x89F), (0x8C9, 0x902), (0x93A, 0x93A),
     (0x93C, 0x93C), (0x941, 0x948), (0x94D, 0x94D), (0x951, 0x957), (0x962, 0x963),
     (0x971, 0x971), (0x981, 0x981), (0x9BC, 0x9BC), (0x9C1, 0x9C4), (0x9CD, 0x9CD),
     (0x9E2, 0x9E3), (0x9FE, 0x9FE), (0xA01, 0xA02), (0xA3C, 0xA3C), (0xA41, 0xA42),
     (0xA47, 0xA48), (0xA4B, 0xA4D), (0xA51, 0xA51), (0xA70, 0xA71), (0xA75, 0xA75),
     (0xA81, 0xA82), (0xABC, 0xABC), (0xAC1, 0xAC5), (0xAC7, 0xAC8), (0xACD, 0xACD),
     (0xAE2, 0xAE3), (0xAFA, 0xAFF), (0xB01, 0xB01), (0xB3C, 0xB3C), (0xB3F, 0xB3F),
     (0xB41, 0xB44), (0xB4D, 0xB4D), (0xB55, 0xB56), (0xB62, 0xB63), (0xB82, 0xB82),
     (0xBC0, 0xBC0), (0xBCD, 0xBCD), (0xC00, 0xC00), (0xC04, 0xC04), (0xC3C, 0xC3C),
     (0xC3E, 0xC40), (0xC46, 0xC48), (0xC4A, 0xC4D), (0xC55, 0xC56), (0xC62, 0xC63),
     (0xC81, 0xC81), (0xCBC, 0xCBC), (0xCBF, 0xCBF), (0xCC6, 0xCC6), (0xCCC, 0xCCD),
     (0xCE2, 0xCE3), (0xD00, 0xD01), (0xD3B, 0xD3C), (0xD41, 0xD44), (0xD4D, 0xD4D),
     (0xD62, 0xD63), (0xD81, 0xD81), (0xDCA, 0xDCA), (0xDD2, 0xDD4), (0xDD6, 0xDD6),
     (0xE31, 0xE31), (0xE34, 0xE3A), (0xE46, 0xE4E), (0xEB1, 0xEB1), (0xEB4, 0xEBC),
     (0xEC6, 0xEC6), (0xEC8, 0xECD), (0xF18, 0xF19), (0xF35, 0xF35), (0xF37, 0xF37),
     (0xF39, 0xF39), (0xF71, 0xF7E), (0xF80, 0xF84), (0xF86, 0xF87), (0xF8D, 0xF97),
     (0xF99, 0xFBC), (0xFC6, 0xFC6), (0x102D, 0x1030), (0x1032, 0x1037), (0x1039, 0x103A),
     (0x103D, 0x103E), (0x1058, 0x1059), (0x105E, 0x1060), (0x1071, 0x1074), (0x1082, 0x1082),
     (0x1085, 0x1086), (0x108D, 0x108D), (0x109D, 0x109D), (0x10FC, 0x10FC), (0x135D, 0x135F),
     (0x1712, 0x1714), (0x1732, 0x1733), (0x1752, 0x1753), (0x1772, 0x1773), (0x17B4, 0x17B5),
     (0x17B7, 0x17BD), (0x17C6, 0x17C6), (0x17C9, 0x17D3), (0x17D7, 0x17D7), (0x17DD, 0x17DD),
     (0x180B, 0x180F), (0x1843, 0x1843), (0x1885, 0x1886), (0x18A9, 0x18A9), (0x1920, 0x1922),
     (0x1927, 0x1928), (0x1932, 0x1932), (0x1939, 0x193B), (0x1A17, 0x1A18), (0x1A1B, 0x1A1B),
     (0x1A56, 0x1A56), (0x1A58, 0x1A5E), (0x1A60, 0x1A60), (0x1A62, 0x1A62), (0x1A65, 0x1A6C),
     (0x1A73, 0x1A7C), (0x1A7F, 0x1A7F), (0x1AA7, 0x1AA7), (0x1AB0, 0x1ACE), (0x1B00, 0x1B03),
     (0x1B34, 0x1B34), (0x1B36, 0x1B3A), (0x1B3C, 0x1B3C), (0x1B42, 0x1B42), (0x1B6B, 0x1B73),
     (0x1B80, 0x1B81), (0x1BA2, 0x1BA5), (0x1BA8, 0x1BA9), (0x1BAB, 0x1BAD), (0x1BE6, 0x1BE6),
     (0x1BE8, 0x1BE9), (0x1BED, 0x1BED), (0x1BEF, 0x1BF1), (0x1C2C, 0x1C33), (0x1C36, 0x1C37),
     (0x1C78, 0x1C7D), (0x1CD0, 0x1CD2), (0x1CD4, 0x1CE0), (0x1CE2, 0x1CE8), (0x1CED, 0x1CED),
     (0x1CF4, 0x1CF4), (0x1CF8, 0x1CF9), (0x1D2C, 0x1D6A), (0x1D78, 0x1D78), (0x1D9B, 0x1DFF),
     (0x1FBD, 0x1FBD), (0x1FBF, 0x1FC1), (0x1FCD, 0x1FCF), (0x1FDD, 0x1FDF), (0x1FED, 0x1FEF),
     (0x1FFD, 0x1FFE), (0x200B, 0x200F), (0x2018, 0x2019), (0x2024, 0x2024), (0x2027, 0x2027),
     (0x202A, 0x202E), (0x2060, 0x2064), (0x2066, 0x206F), (0x2071, 0x2071), (0x207F, 0x207F),
     (0x2090, 0x209C), (0x20D0, 0x20F0), (0x2C7C, 0x2C7D), (0x2CEF, 0x2CF1), (0x2D6F, 0x2D6F),
     (0x2D7F, 0x2D7F), (0x2DE0, 0x2DFF), (0x2E2F, 0x2E2F), (0x3005, 0x3005), (0x302A, 0x302D),
     (0x3031, 0x3035), (0x303B, 0x303B), (0x3099, 0x309E), (0x30FC, 0x30FE), (0xA015, 0xA015),
     (0xA4F8, 0xA4FD), (0xA60C, 0xA60C), (0xA66F, 0xA672), (0xA674, 0xA67D), (0xA67F, 0xA67F),
     (0xA69C, 0xA69F), (0xA6F0, 0xA6F1), (0xA700, 0xA721), (0xA770, 0xA770), (0xA788, 0xA78A),
     (0xA7F2, 0xA7F4), (0xA7F8, 0xA7F9), (0xA802, 0xA802), (0xA806, 0xA806), (0xA80B, 0xA80B),
     (0xA825, 0xA826), (0xA82C, 0xA82C), (0xA8C4, 0xA8C5), (0xA8E0, 0xA8F1), (0xA8FF, 0xA8FF),
     (0xA926, 0xA92D), (0xA947, 0xA951), (0xA980, 0xA982), (0xA9B3, 0xA9B3), (0xA9B6, 0xA9B9),
     (0xA9BC, 0xA9BD), (0xA9CF, 0xA9CF), (0xA9E5, 0xA9E6), (0xAA29, 0xAA2E), (0xAA31, 0xAA32),
     (0xAA35, 0xAA36), (0xAA43, 0xAA43), (0xAA4C, 0xAA4C), (0xAA70, 0xAA70), (0xAA7C, 0xAA7C),
     (0xAAB0, 0xAAB0), (0xAAB2, 0xAAB4), (0xAAB7, 0xAAB8), (0xAABE, 0xAABF), (0xAAC1, 0xAAC1),
     (0xAADD, 0xAADD), (0xAAEC, 0xAAED), (0xAAF3, 0xAAF4), (0xAAF6, 0xAAF6), (0xAB5B, 0xAB5F),
     (0xAB69, 0xAB6B), (0xABE5, 0xABE5), (0xABE8, 0xABE8), (0xABED, 0xABED), (0xFB1E, 0xFB1E),
     (0xFBB2, 0xFBC2), (0xFE00, 0xFE0F), (0xFE13, 0xFE13), (0xFE20, 0xFE2F), (0xFE52, 0xFE52),
     (0xFE55, 0xFE55), (0xFEFF, 0xFEFF), (0xFF07, 0xFF07), (0xFF0E, 0xFF0E), (0xFF1A, 0xFF1A),
     (0xFF3E, 0xFF3E), (0xFF40, 0xFF40), (0xFF70, 0xFF70), (0xFF9E, 0xFF9F), (0xFFE3, 0xFFE3),
     (0xFFF9, 0xFFFB), (0x101FD, 0x101FD), (0x102E0, 0x102E0), (0x10376, 0x1037A),
     (0x10780, 0x10785), (0x10787, 0x107B0), (0x107B2, 0x107BA), (0x10A01, 0x10A03),
     (0x10A05, 0x10A06), (0x10A0C, 0x10A0F), (0x10A38, 0x10A3A), (0x10A3F, 0x10A3F),
     (0x10AE5, 0x10AE6), (0x10D24, 0x10D27), (0x10EAB, 0x10EAC), (0x10F46, 0x10F50),
     (0x10F82, 0x10F85), (0x11001, 0x11001), (0x11038, 0x11046), (0x11070, 0x11070),
     (0x11073, 0x11074), (0x1107F, 0x11081), (0x110B3, 0x110B6), (0x110B9, 0x110BA),
     (0x110BD, 0x110BD), (0x110C2, 0x110C2), (0x110CD, 0x110CD), (0x11100, 0x11102),
     (0x11127, 0x1112B), (0x1112D, 0x11134), (0x11173, 0x11173), (0x11180, 0x11181),
     (0x111B6, 0x111BE), (0x111C9, 0x111CC), (0x111CF, 0x111CF), (0x1122F, 0x11231),
     (0x11234, 0x11234), (0x11236, 0x11237), (0x1123E, 0x1123E), (0x112DF, 0x112DF),
     (0x112E3, 0x112EA), (0x11300, 0x11301), (0x1133B, 0x1133C), (0x11340, 0x11340),
     (0x11366, 0x1136C), (0x11370, 0x11374), (0x11438, 0x1143F), (0x11442, 0x11444),
     (0x11446, 0x11446), (0x1145E, 0x1145E), (0x114B3, 0x114B8), (0x114BA, 0x114BA),
     (0x114BF, 0x114C0), (0x114C2, 0x114C3), (0x115B2, 0x115B5), (0x115BC, 0x115BD),
     (0x115BF, 0x115C0), (0x115DC, 0x115DD), (0x11633, 0x1163A), (0x1163D, 0x1163D),
     (0x1163F, 0x11640), (0x116AB, 0x116AB), (0x116AD, 0x116AD), (0x116B0, 0x116B5),
     (0x116B7, 0x116B7), (0x1171D, 0x1171F), (0x11722, 0x11725), (0x11727, 0x1172B),
     (0x1182F, 0x11837), (0x11839, 0x1183A), (0x1193B, 0x1193C), (0x1193E, 0x1193E),
     (0x11943, 0x11943), (0x119D4, 0x119D7), (0x119DA, 0x119DB), (0x119E0, 0x119E0),
     (0x11A01, 0x11A0A), (0x11A33, 0x11A38), (0x11A3B, 0x11A3E), (0x11A47, 0x11A47),
     (0x11A51, 0x11A56), (0x11A59, 0x11A5B), (0x11A8A, 0x11A96), (0x11A98, 0x11A99),
     (0x11C30, 0x11C36), (0x11C38, 0x11C3D), (0x11C3F, 0x11C3F), (0x11C92, 0x11CA7),
     (0x11CAA, 0x11CB0), (0x11CB2, 0x11CB3), (0x11CB5, 0x11CB6), (0x11D31, 0x11D36),
     (0x11D3A, 0x11D3A), (0x11D3C, 0x11D3D), (0x11D3F, 0x11D45), (0x11D47, 0x11D47),
     (0x11D90, 0x11D91), (0x11D95, 0x11D95), (0x11D97, 0x11D97), (0x11EF3, 0x11EF4),
     (0x13430, 0x13438), (0x16AF0, 0x16AF4), (0x16B30, 0x16B36), (0x16B40, 0x16B43),
     (0x16F4F, 0x16F4F), (0x16F8F, 0x16F9F), (0x16FE0, 0x16FE1), (0x16FE3, 0x16FE4),
     (0x1AFF0, 0x1AFF3), (0x1AFF5, 0x1AFFB), (0x1AFFD, 0x1AFFE), (0x1BC9D, 0x1BC9E),
     (0x1BCA0, 0x1BCA3), (0x1CF00, 0x1CF2D), (0x1CF30, 0x1CF46), (0x1D167, 0x1D169),
     (0x1D173, 0x1D182), (0x1D185, 0x1D18B), (0x1D1AA, 0x1D1AD), (0x1D242, 0x1D244),
     (0x1DA00, 0x1DA36), (0x1DA3B, 0x1DA6C), (0x1DA75, 0x1DA75), (0x1DA84, 0x1DA84),
     (0x1DA9B, 0x1DA9F), (0x1DAA1, 0x1DAAF), (0x1E000, 0x1E006), (0x1E008, 0x1E018),
     (0x1E01B, 0x1E021), (0x1E023, 0x1E024), (0x1E026, 0x1E02A), (0x1E130, 0x1E13D),
     (0x1E2AE, 0x1E2AE), (0x1E2EC, 0x1E2EF), (0x1E8D0, 0x1E8D6), (0x1E944, 0x1E94B),
     (0x1F3FB, 0x1F3FF), (0xE0001, 0xE0001), (0xE0020, 0xE007F), (0xE0100, 0xE01EF)]"

text \<open>The code points with the property \<^verbatim>\<open>Cased\<close>, as ascending ranges.\<close>

definition casedRanges :: "(int \<times> int) list" where
  "casedRanges =
    [
     (0x41, 0x5A), (0x61, 0x7A), (0xAA, 0xAA), (0xB5, 0xB5), (0xBA, 0xBA), (0xC0, 0xD6),
     (0xD8, 0xF6), (0xF8, 0x1BA), (0x1BC, 0x1BF), (0x1C4, 0x293), (0x295, 0x2B8), (0x2C0, 0x2C1),
     (0x2E0, 0x2E4), (0x345, 0x345), (0x370, 0x373), (0x376, 0x377), (0x37A, 0x37D),
     (0x37F, 0x37F), (0x386, 0x386), (0x388, 0x38A), (0x38C, 0x38C), (0x38E, 0x3A1),
     (0x3A3, 0x3F5), (0x3F7, 0x481), (0x48A, 0x52F), (0x531, 0x556), (0x560, 0x588),
     (0x10A0, 0x10C5), (0x10C7, 0x10C7), (0x10CD, 0x10CD), (0x10D0, 0x10FA), (0x10FD, 0x10FF),
     (0x13A0, 0x13F5), (0x13F8, 0x13FD), (0x1C80, 0x1C88), (0x1C90, 0x1CBA), (0x1CBD, 0x1CBF),
     (0x1D00, 0x1DBF), (0x1E00, 0x1F15), (0x1F18, 0x1F1D), (0x1F20, 0x1F45), (0x1F48, 0x1F4D),
     (0x1F50, 0x1F57), (0x1F59, 0x1F59), (0x1F5B, 0x1F5B), (0x1F5D, 0x1F5D), (0x1F5F, 0x1F7D),
     (0x1F80, 0x1FB4), (0x1FB6, 0x1FBC), (0x1FBE, 0x1FBE), (0x1FC2, 0x1FC4), (0x1FC6, 0x1FCC),
     (0x1FD0, 0x1FD3), (0x1FD6, 0x1FDB), (0x1FE0, 0x1FEC), (0x1FF2, 0x1FF4), (0x1FF6, 0x1FFC),
     (0x2071, 0x2071), (0x207F, 0x207F), (0x2090, 0x209C), (0x2102, 0x2102), (0x2107, 0x2107),
     (0x210A, 0x2113), (0x2115, 0x2115), (0x2119, 0x211D), (0x2124, 0x2124), (0x2126, 0x2126),
     (0x2128, 0x2128), (0x212A, 0x212D), (0x212F, 0x2134), (0x2139, 0x2139), (0x213C, 0x213F),
     (0x2145, 0x2149), (0x214E, 0x214E), (0x2160, 0x217F), (0x2183, 0x2184), (0x24B6, 0x24E9),
     (0x2C00, 0x2CE4), (0x2CEB, 0x2CEE), (0x2CF2, 0x2CF3), (0x2D00, 0x2D25), (0x2D27, 0x2D27),
     (0x2D2D, 0x2D2D), (0xA640, 0xA66D), (0xA680, 0xA69D), (0xA722, 0xA787), (0xA78B, 0xA78E),
     (0xA790, 0xA7CA), (0xA7D0, 0xA7D1), (0xA7D3, 0xA7D3), (0xA7D5, 0xA7D9), (0xA7F5, 0xA7F6),
     (0xA7F8, 0xA7FA), (0xAB30, 0xAB5A), (0xAB5C, 0xAB68), (0xAB70, 0xABBF), (0xFB00, 0xFB06),
     (0xFB13, 0xFB17), (0xFF21, 0xFF3A), (0xFF41, 0xFF5A), (0x10400, 0x1044F),
     (0x104B0, 0x104D3), (0x104D8, 0x104FB), (0x10570, 0x1057A), (0x1057C, 0x1058A),
     (0x1058C, 0x10592), (0x10594, 0x10595), (0x10597, 0x105A1), (0x105A3, 0x105B1),
     (0x105B3, 0x105B9), (0x105BB, 0x105BC), (0x10780, 0x10780), (0x10783, 0x10785),
     (0x10787, 0x107B0), (0x107B2, 0x107BA), (0x10C80, 0x10CB2), (0x10CC0, 0x10CF2),
     (0x118A0, 0x118DF), (0x16E40, 0x16E7F), (0x1D400, 0x1D454), (0x1D456, 0x1D49C),
     (0x1D49E, 0x1D49F), (0x1D4A2, 0x1D4A2), (0x1D4A5, 0x1D4A6), (0x1D4A9, 0x1D4AC),
     (0x1D4AE, 0x1D4B9), (0x1D4BB, 0x1D4BB), (0x1D4BD, 0x1D4C3), (0x1D4C5, 0x1D505),
     (0x1D507, 0x1D50A), (0x1D50D, 0x1D514), (0x1D516, 0x1D51C), (0x1D51E, 0x1D539),
     (0x1D53B, 0x1D53E), (0x1D540, 0x1D544), (0x1D546, 0x1D546), (0x1D54A, 0x1D550),
     (0x1D552, 0x1D6A5), (0x1D6A8, 0x1D6C0), (0x1D6C2, 0x1D6DA), (0x1D6DC, 0x1D6FA),
     (0x1D6FC, 0x1D714), (0x1D716, 0x1D734), (0x1D736, 0x1D74E), (0x1D750, 0x1D76E),
     (0x1D770, 0x1D788), (0x1D78A, 0x1D7A8), (0x1D7AA, 0x1D7C2), (0x1D7C4, 0x1D7CB),
     (0x1DF00, 0x1DF09), (0x1DF0B, 0x1DF1E), (0x1E900, 0x1E943), (0x1F130, 0x1F149),
     (0x1F150, 0x1F169), (0x1F170, 0x1F189)]"

fun mappedIn :: "(int \<times> int \<times> int \<times> int) list \<Rightarrow> int \<Rightarrow> int" where
  "mappedIn [] c = c"
| "mappedIn ((lo, hi, step, img) # rs) c =
     (if c < lo then c
      else if c \<le> hi \<and> (c - lo) mod step = 0 then img + (c - lo)
      else mappedIn rs c)"

fun inRanges :: "(int \<times> int) list \<Rightarrow> int \<Rightarrow> bool" where
  "inRanges [] c = False"
| "inRanges ((lo, hi) # rs) c = (if c < lo then False else if c \<le> hi then True else inRanges rs c)"

definition simpleLowercase :: "int \<Rightarrow> int" where
  "simpleLowercase c = mappedIn lowercaseMapping c"

definition caseIgnorable :: "int \<Rightarrow> bool" where
  "caseIgnorable c = inRanges caseIgnorableRanges c"

definition cased :: "int \<Rightarrow> bool" where
  "cased c = inRanges casedRanges c"

text \<open>A cased letter comes next, after any number of case-ignorable code points.\<close>

fun casedAfterIgnorable :: "int list \<Rightarrow> bool" where
  "casedAfterIgnorable [] = False"
| "casedAfterIgnorable (c # cs) = (if caseIgnorable c then casedAfterIgnorable cs else cased c)"

text \<open>
  The condition \<^verbatim>\<open>Final_Sigma\<close> of \<^verbatim>\<open>SpecialCasing.txt\<close>; \<open>before\<close> holds the code points
  before the sigma, nearest first, and \<open>after\<close> those that follow it.
\<close>

definition finalSigma :: "int list \<Rightarrow> int list \<Rightarrow> bool" where
  "finalSigma before after = (casedAfterIgnorable before \<and> \<not> casedAfterIgnorable after)"

text \<open>
  \<^verbatim>\<open>toLowercase\<close> of the Unicode default case conversion, as ECMAScript prescribes for
  \<^verbatim>\<open>String.prototype.toLowerCase\<close>: the mappings of \<^verbatim>\<open>UnicodeData.txt\<close> and the
  language-insensitive ones of \<^verbatim>\<open>SpecialCasing.txt\<close>, which are \<open>U+0130\<close> and the capital
  sigma \<open>U+03A3\<close> in final position.
\<close>

fun toLowercase :: "int list \<Rightarrow> int list \<Rightarrow> int list" where
  "toLowercase before [] = []"
| "toLowercase before (c # cs) =
     (if c = 0x3A3 then (if finalSigma before cs then [0x3C2] else [0x3C3])
      else if c = 0x130 then [0x69, 0x307]
      else [simpleLowercase c]) @ toLowercase (c # before) cs"

text \<open>\<^verbatim>\<open>String.prototype.toLowerCase\<close>\<close>

definition toLowerCase :: "string \<Rightarrow> string" where
  "toLowerCase s = CodePointsToString (toLowercase [] (StringToCodePoints s))"

fun startsWith :: "string \<Rightarrow> string \<Rightarrow> bool" where
  "startsWith s [] = True"
| "startsWith [] (y # ys) = False"
| "startsWith (x # xs) (y # ys) = (x = y \<and> startsWith xs ys)"

text \<open>\<^verbatim>\<open>String.prototype.includes\<close>: the search string occurs at some position.\<close>

fun includesStr :: "string \<Rightarrow> string \<Rightarrow> bool" where
  "includesStr [] f = (f = [])"
| "includesStr (x # xs) f = (startsWith (x # xs) f \<or> includesStr xs f)"

text \<open>\<^verbatim>\<open>a || b\<close> on \<^verbatim>\<open>string | undefined\<close>: \<^verbatim>\<open>undefined\<close> and \<^verbatim>\<open>""\<close> are falsy.\<close>

definition falsy :: "string option \<Rightarrow> bool" where
  "falsy a = (case a of None \<Rightarrow> True | Some s \<Rightarrow> s = [])"

definition orString :: "string option \<Rightarrow> string option \<Rightarrow> string option" where
  "orString a b = (if falsy a then b else a)"

text \<open>\<^verbatim>\<open>a || b\<close> on \<^verbatim>\<open>number | undefined\<close>: \<^verbatim>\<open>undefined\<close> and \<^verbatim>\<open>0\<close> are falsy.\<close>

definition orNumber :: "int option \<Rightarrow> int \<Rightarrow> int" where
  "orNumber a b = (case a of None \<Rightarrow> b | Some n \<Rightarrow> if n = 0 then b else n)"

text \<open>\<^verbatim>\<open>Array.prototype.map\<close> with a callback that may throw: the first throw ends it.\<close>

fun mapThrowing :: "('a \<Rightarrow> error + 'b) \<Rightarrow> 'a list \<Rightarrow> error + 'b list" where
  "mapThrowing f [] = Inr []"
| "mapThrowing f (x # xs) =
     (case f x of
        Inl e \<Rightarrow> Inl e
      | Inr y \<Rightarrow> (case mapThrowing f xs of Inl e \<Rightarrow> Inl e | Inr ys \<Rightarrow> Inr (y # ys)))"

text \<open>
  \<^verbatim>\<open>Array.prototype.sort(cmp)\<close>: a stable sort; \<open>a\<close> stays before \<open>b\<close> unless
  \<open>cmp a b > 0\<close>. Modelled as insertion from the right.
\<close>

fun insertBy :: "('a \<Rightarrow> 'a \<Rightarrow> int) \<Rightarrow> 'a \<Rightarrow> 'a list \<Rightarrow> 'a list" where
  "insertBy cmp x [] = [x]"
| "insertBy cmp x (y # ys) =
     (if cmp x y \<le> 0 then x # y # ys else y # insertBy cmp x ys)"

definition sortBy :: "('a \<Rightarrow> 'a \<Rightarrow> int) \<Rightarrow> 'a list \<Rightarrow> 'a list" where
  "sortBy cmp xs = foldr (insertBy cmp) xs []"

section \<open>The component's computations\<close>

text \<open>\<^verbatim>\<open>i18nConfig.find(({ code }) => localeChoice === code)\<close>\<close>

definition findConfig :: "env \<Rightarrow> string \<Rightarrow> I18nConfigItem option" where
  "findConfig e lc = List.find (\<lambda>c. lc = code c) (i18nConfig e)"

text \<open>\<^verbatim>\<open>progressData.find(({ languageId }) => i18nConfigItem.crowdinCode === languageId)\<close>\<close>

definition findProgress :: "env \<Rightarrow> I18nConfigItem \<Rightarrow> ProgressDataItem option" where
  "findProgress e item = List.find (\<lambda>d. crowdinCode item = languageId d) (progressData e)"

definition sourceOf :: "env \<Rightarrow> I18nConfigItem \<Rightarrow> string \<Rightarrow> string option" where
  "sourceOf e item lc =
     (let intlSource = displayNameOf e (routerLocale e) lc;
          fallbackSource = (if intlSource \<noteq> Some lc then intlSource else Some (name item));
          i18nKey = ''language-'' @ toLowerCase lc;
          i18nSource = translate e i18nKey
      in if i18nSource = i18nKey then fallbackSource else Some i18nSource)"

definition targetOf :: "env \<Rightarrow> I18nConfigItem \<Rightarrow> string \<Rightarrow> string option" where
  "targetOf e item lc =
     (let fallbackTarget = displayNameOf e lc lc;
          i18nConfigTarget = localName item
      in orString i18nConfigTarget fallbackTarget)"

definition approvalProgressOf :: "env \<Rightarrow> I18nConfigItem \<Rightarrow> string \<Rightarrow> int" where
  "approvalProgressOf e item lc =
     (let dataItem = findProgress e item
      in orNumber (map_option dataApprovalProgress dataItem)
           (if lc = DEFAULT_LOCALE e then 100 else 0))"

text \<open>The callback of \<^verbatim>\<open>locales?.map\<close>: one record for one locale code, or a throw.\<close>

definition localeDisplayInfo :: "env \<Rightarrow> string \<Rightarrow> error + LocaleDisplayInfo" where
  "localeDisplayInfo e lc =
     (case findConfig e lc of
        None \<Rightarrow> Inl (MissingI18nConfig lc)
      | Some item \<Rightarrow>
          (case (sourceOf e item lc, targetOf e item lc) of
             (Some s, Some g) \<Rightarrow>
               if s = [] \<or> g = [] then Inl (MissingLanguageDisplayName lc)
               else Inr \<lparr>localeChoice = lc, source = s, target = g,
                         approvalProgress = approvalProgressOf e item lc\<rparr>
           | _ \<Rightarrow> Inl (MissingLanguageDisplayName lc)))"

text \<open>The comparator \<^verbatim>\<open>(a, b) => b.approvalProgress - a.approvalProgress\<close>.\<close>

definition byProgressDesc :: "LocaleDisplayInfo \<Rightarrow> LocaleDisplayInfo \<Rightarrow> int" where
  "byProgressDesc a b = approvalProgress b - approvalProgress a"

definition ranker :: "LocaleDisplayInfo list \<Rightarrow> LocaleDisplayInfo list" where
  "ranker rs = sortBy byProgressDesc rs"

text \<open>\<^verbatim>\<open>locales?.map(...).sort(...) || []\<close>, with \<^verbatim>\<open>router.locales\<close> possibly undefined.\<close>

definition displayNames :: "env \<Rightarrow> string list option \<Rightarrow> error + LocaleDisplayInfo list" where
  "displayNames e locales =
     (case locales of
        None \<Rightarrow> Inr []
      | Some ls \<Rightarrow>
          (case mapThrowing (localeDisplayInfo e) ls of
             Inl err \<Rightarrow> Inl err
           | Inr rs \<Rightarrow> Inr (ranker rs)))"

definition passesFilter :: "string \<Rightarrow> LocaleDisplayInfo \<Rightarrow> bool" where
  "passesFilter filterValue r =
     includesStr (toLowerCase (localeChoice r @ source r @ target r)) (toLowerCase filterValue)"

definition filteredNames :: "string \<Rightarrow> LocaleDisplayInfo list \<Rightarrow> LocaleDisplayInfo list" where
  "filteredNames filterValue names = filter (passesFilter filterValue) names"

text \<open>What one render computes from the router's locale list and the filter text.\<close>

definition filteredDisplayNames ::
  "env \<Rightarrow> string list option \<Rightarrow> string \<Rightarrow> error + LocaleDisplayInfo list" where
  "filteredDisplayNames e locales filterValue =
     (case displayNames e locales of
        Inl err \<Rightarrow> Inl err
      | Inr names \<Rightarrow> Inr (filteredNames filterValue names))"

section \<open>Letter case in ASCII strings\<close>




section \<open>Closing the menu\<close>

text \<open>
  Callbacks act on a state \<open>'s\<close> of the surrounding application.
  \<^verbatim>\<open>const onMenuClose = () => { handleClose ? handleClose() : onClose() }\<close>, where
  \<^verbatim>\<open>handleClose\<close> is an optional prop.
\<close>

definition onMenuClose :: "('s \<Rightarrow> 's) option \<Rightarrow> ('s \<Rightarrow> 's) \<Rightarrow> 's \<Rightarrow> 's" where
  "onMenuClose handleClose onClose =
     (case handleClose of Some h \<Rightarrow> h | None \<Rightarrow> onClose)"

text \<open>The props each \<^verbatim>\<open>Item\<close> is rendered with: \<^verbatim>\<open>href\<close>, \<^verbatim>\<open>locale\<close>, \<^verbatim>\<open>onClick\<close>.\<close>

record 's ItemProps =
  href :: string
  itemLocale :: string
  onClick :: "'s \<Rightarrow> 's"

definition itemProps ::
  "string \<Rightarrow> ('s \<Rightarrow> 's) option \<Rightarrow> ('s \<Rightarrow> 's) \<Rightarrow> LocaleDisplayInfo \<Rightarrow> 's ItemProps" where
  "itemProps asPath handleClose onClose r =
     \<lparr>href = asPath, itemLocale = localeChoice r,
      onClick = onMenuClose handleClose onClose\<rparr>"

definition renderedItems ::
  "string \<Rightarrow> ('s \<Rightarrow> 's) option \<Rightarrow> ('s \<Rightarrow> 's) \<Rightarrow> LocaleDisplayInfo list \<Rightarrow> 's ItemProps list" where
  "renderedItems asPath handleClose onClose names =
     map (itemProps asPath handleClose onClose) names"

text \<open>
  Modelled from the spec: the link component behind \<^verbatim>\<open>Item\<close> (\<^verbatim>\<open>BaseLink\<close> in
  \<^verbatim>\<open>@/components/Link\<close>, rendered through \<^verbatim>\<open>MenuItem\<close>) is not in this file. The spec
  says of a selection that it "calls the navigation primitive with (currentPath,
  selectedLocaleCode) then calls" the close callback; \<open>navigate\<close> is that primitive.
\<close>

definition activate :: "(string \<Rightarrow> string \<Rightarrow> 's \<Rightarrow> 's) \<Rightarrow> 's ItemProps \<Rightarrow> 's \<Rightarrow> 's" where
  "activate navigate p s = onClick p (navigate (href p) (itemLocale p) s)"

text \<open>A state that only records which effects happened, in order.\<close>

datatype event = Navigated string string | HandleCloseCalled | OnCloseCalled

definition logNavigate :: "string \<Rightarrow> string \<Rightarrow> event list \<Rightarrow> event list" where
  "logNavigate path l tr = tr @ [Navigated path l]"

definition logHandleClose :: "event list \<Rightarrow> event list" where
  "logHandleClose tr = tr @ [HandleCloseCalled]"

definition logOnClose :: "event list \<Rightarrow> event list" where
  "logOnClose tr = tr @ [OnCloseCalled]"

section \<open>Example tables\<close>

definition enItem :: I18nConfigItem where
  "enItem = \<lparr>code = ''en'', name = ''English'', localName = Some ''English'', crowdinCode = ''en''\<rparr>"

definition esItem :: I18nConfigItem where
  "esItem = \<lparr>code = ''es'', name = ''Spanish'', localName = Some ''Espanol'', crowdinCode = ''es-EM''\<rparr>"

definition frItem :: I18nConfigItem where
  "frItem = \<lparr>code = ''fr'', name = ''French'', localName = Some [], crowdinCode = ''fr''\<rparr>"

definition pcmItem :: I18nConfigItem where
  "pcmItem = \<lparr>code = ''pcm'', name = ''Nigerian Pidgin'', localName = None, crowdinCode = ''pcm''\<rparr>"

definition xxItem :: I18nConfigItem where
  "xxItem = \<lparr>code = ''xx'', name = [], localName = None, crowdinCode = ''xx''\<rparr>"

definition exampleTranslate :: "string \<Rightarrow> string" where
  "exampleTranslate k = (if k = ''language-fr'' then ''Franse'' else k)"

definition exampleDisplayNameOf :: "string \<Rightarrow> string \<Rightarrow> string option" where
  "exampleDisplayNameOf l c =
     (if c = ''en'' then Some ''English''
      else if c = ''es'' then Some (if l = ''es'' then ''espanol'' else ''Spanish'')
      else if c = ''fr'' then Some (if l = ''fr'' then ''francais'' else ''French'')
      else if c = ''xx'' then None
      else Some c)"

definition exampleEnv :: env where
  "exampleEnv =
     \<lparr>i18nConfig = [enItem, esItem, frItem, pcmItem, xxItem],
      progressData = [\<lparr>languageId = ''es-EM'', dataApprovalProgress = 40\<rparr>,
                      \<lparr>languageId = ''pcm'', dataApprovalProgress = 0\<rparr>],
      DEFAULT_LOCALE = ''en'',
      translate = exampleTranslate,
      displayNameOf = exampleDisplayNameOf,
      routerLocale = ''en''\<rparr>"

text \<open>The same tables, with a progress entry of 0 for the default locale.\<close>

definition zeroEnv :: env where
  "zeroEnv = exampleEnv\<lparr>progressData := [\<lparr>languageId = ''en'', dataApprovalProgress = 0\<rparr>]\<rparr>"

definition enInfo :: LocaleDisplayInfo where
  "enInfo = \<lparr>localeChoice = ''en'', source = ''English'', target = ''English'', approvalProgress = 100\<rparr>"

definition esInfo :: LocaleDisplayInfo where
  "esInfo = \<lparr>localeChoice = ''es'', source = ''Spanish'', target = ''Espanol'', approvalProgress = 40\<rparr>"

definition frInfo :: LocaleDisplayInfo where
  "frInfo = \<lparr>localeChoice = ''fr'', source = ''Franse'', target = ''francais'', approvalProgress = 0\<rparr>"

definition pcmInfo :: LocaleDisplayInfo where
  "pcmInfo = \<lparr>localeChoice = ''pcm'', source = ''Nigerian Pidgin'', target = ''pcm'', approvalProgress = 0\<rparr>"

text \<open>
  Names beyond ASCII, given by their code points: the Icelandic name of Icelandic, which
  starts with \<open>U+00CD\<close>, and the same word in small letters as a filter; the Russian name
  of Russian and its first three letters in capitals as a filter; the Greek word \<open>odos\<close>
  in capitals, which ends with the capital sigma \<open>U+03A3\<close>, and that sigma as a filter.
\<close>

definition isInfo :: LocaleDisplayInfo where
  "isInfo = \<lparr>localeChoice = ''is'', source = ''Icelandic'',
      target = CodePointsToString [0xCD, 0x73, 0x6C, 0x65, 0x6E, 0x73, 0x6B, 0x61],
      approvalProgress = 0\<rparr>"

definition islenskaFilter :: string where
  "islenskaFilter = CodePointsToString [0xED, 0x73, 0x6C, 0x65, 0x6E, 0x73, 0x6B, 0x61]"

definition ruInfo :: LocaleDisplayInfo where
  "ruInfo = \<lparr>localeChoice = ''ru'', source = ''Russian'',
      target = CodePointsToString [0x420, 0x443, 0x441, 0x441, 0x43A, 0x438, 0x439],
      approvalProgress = 0\<rparr>"

definition rusFilter :: string where
  "rusFilter = CodePointsToString [0x420, 0x423, 0x421]"



section \<open>Facts about the primitives\<close>














lemma mapThrowing_Inr:
  "mapThrowing f xs = Inr ys \<Longrightarrow> list_all2 (\<lambda>x y. f x = Inr y) xs ys"
  by (induction xs arbitrary: ys) (auto split: sum.splits)

lemma mset_insertBy: "mset (insertBy cmp x ys) = add_mset x (mset ys)"
  by (induction ys) auto

lemma mset_sortBy: "mset (sortBy cmp xs) = mset xs"
  by (induction xs) (auto simp: sortBy_def mset_insertBy)

lemma set_insertBy: "set (insertBy cmp x ys) = insert x (set ys)"
  by (induction ys) auto

lemma sorted_insertBy:
  "sorted_wrt (\<lambda>a b. approvalProgress b \<le> approvalProgress a) ys \<Longrightarrow>
   sorted_wrt (\<lambda>a b. approvalProgress b \<le> approvalProgress a) (insertBy byProgressDesc x ys)"
  by (induction ys) (auto simp: set_insertBy byProgressDesc_def)

lemma filter_insertBy:
  "filter (\<lambda>r. approvalProgress r = k) (insertBy byProgressDesc x ys) =
     (if approvalProgress x = k then x # filter (\<lambda>r. approvalProgress r = k) ys
      else filter (\<lambda>r. approvalProgress r = k) ys)"
  by (induction ys) (auto simp: byProgressDesc_def)

lemma set_ranker: "set (ranker rs) = set rs"
  by (metis mset_sortBy ranker_def set_mset_mset)

section \<open>Facts about one locale\<close>

lemma localeDisplayInfo_Inr:
  assumes "localeDisplayInfo e lc = Inr r"
  obtains item where "findConfig e lc = Some item"
    and "sourceOf e item lc = Some (source r)" and "source r \<noteq> []"
    and "targetOf e item lc = Some (target r)" and "target r \<noteq> []"
    and "localeChoice r = lc"
    and "approvalProgress r = approvalProgressOf e item lc"
  using assms
  by (auto simp: localeDisplayInfo_def split: option.splits prod.splits if_splits)

lemma missing_display_name_iff:
  "(localeDisplayInfo e lc = Inl (MissingLanguageDisplayName lc)) =
     (\<exists>item. findConfig e lc = Some item \<and>
        (falsy (sourceOf e item lc) \<or> falsy (targetOf e item lc)))"
  by (auto simp: localeDisplayInfo_def falsy_def split: option.splits prod.splits if_splits)

lemma displayNames_Inr:
  assumes "displayNames e (Some ls) = Inr rs"
  obtains qs where "list_all2 (\<lambda>lc r. localeDisplayInfo e lc = Inr r) ls qs"
    and "rs = ranker qs"
  using assms
  by (auto simp: displayNames_def split: sum.splits dest: mapThrowing_Inr)

lemma resolved_list:
  assumes "list_all2 (\<lambda>lc r. localeDisplayInfo e lc = Inr r) ls qs"
  shows "map localeChoice qs = ls \<and>
         (\<forall>r\<in>set qs. source r \<noteq> [] \<and> target r \<noteq> [] \<and>
            localeDisplayInfo e (localeChoice r) = Inr r)"
  using assms
  by (induction rule: list_all2_induct) (auto elim: localeDisplayInfo_Inr)

text \<open>Every record of the resolver's list is the record of its own locale code.\<close>

lemma displayNames_member:
  assumes "displayNames e (Some ls) = Inr rs" and "r \<in> set rs"
  shows "localeChoice r \<in> set ls \<and> localeDisplayInfo e (localeChoice r) = Inr r"
proof -
  from assms(1) obtain qs where qs: "list_all2 (\<lambda>lc r. localeDisplayInfo e lc = Inr r) ls qs"
    and rs: "rs = ranker qs"
    by (rule displayNames_Inr)
  from assms(2) rs have r: "r \<in> set qs"
    by (simp add: set_ranker)
  with resolved_list [OF qs] have "localeChoice r \<in> set (map localeChoice qs)"
    and "localeDisplayInfo e (localeChoice r) = Inr r"
    by auto
  with resolved_list [OF qs] show ?thesis by simp
qed

text \<open>The example of the spec, with two more locales: ties keep the order of the input.\<close>

lemma displayNames_example:
  "displayNames exampleEnv (Some [''pcm'', ''fr'', ''es'', ''en'']) =
     Inr [enInfo, esInfo, pcmInfo, frInfo]"
  by code_simp

lemma filteredNames_example:
  "filteredNames ''SPAN'' [enInfo, esInfo, pcmInfo, frInfo] = [esInfo]"
  by code_simp

lemma filteredNames_example_beyond_ascii:
  "filteredNames islenskaFilter [enInfo, isInfo, ruInfo] = [isInfo]"
  "filteredNames rusFilter [enInfo, isInfo, ruInfo] = [ruInfo]"
  by code_simp+

lemma sorted_ranker:
  "sorted_wrt (\<lambda>a b. approvalProgress b \<le> approvalProgress a) (ranker rs)"
  by (induction rs) (simp_all add: ranker_def sortBy_def sorted_insertBy)

lemma filter_ranker:
  "filter (\<lambda>r. approvalProgress r = k) (ranker rs) = filter (\<lambda>r. approvalProgress r = k) rs"
  by (induction rs) (simp_all add: ranker_def sortBy_def filter_insertBy)





section \<open>Approval progress\<close>

text \<open>
  C1, as the code has it. For a locale code that resolves to a record: when a progress
  entry's \<open>languageId\<close> equals the locale's \<open>crowdinCode\<close>, the record's
  \<open>approvalProgress\<close> is that entry's value, unless the value is 0 and the locale is the
  default locale; when no entry matches, it is 100 for the default locale and 0 otherwise.
\<close>

theorem approvalProgress_of_entry:
  assumes "localeDisplayInfo e lc = Inr r" and "findConfig e lc = Some item"
  shows "(\<forall>d. findProgress e item = Some d \<and>
              \<not> (dataApprovalProgress d = 0 \<and> lc = DEFAULT_LOCALE e) \<longrightarrow>
              approvalProgress r = dataApprovalProgress d) \<and>
         (findProgress e item = None \<longrightarrow>
              approvalProgress r = (if lc = DEFAULT_LOCALE e then 100 else 0))"
proof -
  from assms have "approvalProgress r = approvalProgressOf e item lc"
    by (auto elim: localeDisplayInfo_Inr)
  then show ?thesis
    by (auto simp: approvalProgressOf_def orNumber_def)
qed

theorem approvalProgress_of_entry_witness:
  "localeDisplayInfo exampleEnv ''es'' = Inr esInfo \<and>
   findConfig exampleEnv ''es'' = Some esItem \<and>
   findProgress exampleEnv esItem = Some \<lparr>languageId = ''es-EM'', dataApprovalProgress = 40\<rparr> \<and>
   approvalProgress esInfo = 40 \<and>
   localeDisplayInfo exampleEnv ''en'' = Inr enInfo \<and>
   findConfig exampleEnv ''en'' = Some enItem \<and>
   findProgress exampleEnv enItem = None \<and>
   approvalProgress enInfo = 100"
proof -
  have es1: "localeDisplayInfo exampleEnv ''es'' = Inr esInfo" by code_simp
  have es2: "findConfig exampleEnv ''es'' = Some esItem" by code_simp
  have es3: "findProgress exampleEnv esItem =
      Some \<lparr>languageId = ''es-EM'', dataApprovalProgress = 40\<rparr>" by code_simp
  have en1: "localeDisplayInfo exampleEnv ''en'' = Inr enInfo" by code_simp
  have en2: "findConfig exampleEnv ''en'' = Some enItem" by code_simp
  have en3: "findProgress exampleEnv enItem = None" by code_simp
  have en4: "DEFAULT_LOCALE exampleEnv = ''en''" by code_simp
  from approvalProgress_of_entry [OF es1 es2] es3 have "approvalProgress esInfo = 40"
    by simp
  moreover from approvalProgress_of_entry [OF en1 en2] en3 en4
  have "approvalProgress enInfo = 100"
    by simp
  ultimately show ?thesis using es1 es2 es3 en1 en2 en3 by simp
qed

text \<open>
  C1 as the spec states it fails: with the progress entry \<open>(en, 0)\<close> and default locale
  \<open>en\<close>, the entry exists and holds 0, and the record holds 100.
\<close>

theorem approvalProgress_zero_entry_counterexample:
  "findConfig zeroEnv ''en'' = Some enItem \<and>
   findProgress zeroEnv enItem = Some \<lparr>languageId = ''en'', dataApprovalProgress = 0\<rparr> \<and>
   DEFAULT_LOCALE zeroEnv = ''en'' \<and>
   localeDisplayInfo zeroEnv ''en'' = Inr enInfo \<and>
   approvalProgress enInfo = 100 \<and>
   approvalProgress enInfo \<noteq> dataApprovalProgress \<lparr>languageId = ''en'', dataApprovalProgress = 0\<rparr>"
  by code_simp

section \<open>Source and target names\<close>

text \<open>
  C2. For a locale code \<open>lc\<close> that resolves to a record, with \<open>key\<close> the string
  \<open>language-\<close> followed by \<open>lc\<close> in lower case: if the translation of \<open>key\<close> differs from
  \<open>key\<close>, \<open>source\<close> is that translation; otherwise, if the platform's name for \<open>lc\<close> in the
  viewer's locale differs from \<open>lc\<close>, \<open>source\<close> is that name; otherwise it is the
  configured English name.
\<close>

theorem source_precedence:
  assumes "localeDisplayInfo e lc = Inr r" and "findConfig e lc = Some item"
  shows "Some (source r) =
     (let key = ''language-'' @ toLowerCase lc
      in if translate e key \<noteq> key then Some (translate e key)
         else if displayNameOf e (routerLocale e) lc \<noteq> Some lc
           then displayNameOf e (routerLocale e) lc
         else Some (name item))"
proof -
  from assms have "sourceOf e item lc = Some (source r)"
    by (auto elim: localeDisplayInfo_Inr)
  then show ?thesis
    by (simp add: sourceOf_def Let_def split: if_splits)
qed

theorem source_precedence_witness:
  "localeDisplayInfo exampleEnv ''fr'' = Inr frInfo \<and> findConfig exampleEnv ''fr'' = Some frItem \<and>
   translate exampleEnv ''language-fr'' = ''Franse'' \<and> source frInfo = ''Franse'' \<and>
   localeDisplayInfo exampleEnv ''es'' = Inr esInfo \<and> findConfig exampleEnv ''es'' = Some esItem \<and>
   translate exampleEnv ''language-es'' = ''language-es'' \<and>
   displayNameOf exampleEnv ''en'' ''es'' = Some ''Spanish'' \<and> source esInfo = ''Spanish'' \<and>
   localeDisplayInfo exampleEnv ''pcm'' = Inr pcmInfo \<and> findConfig exampleEnv ''pcm'' = Some pcmItem \<and>
   translate exampleEnv ''language-pcm'' = ''language-pcm'' \<and>
   displayNameOf exampleEnv ''en'' ''pcm'' = Some ''pcm'' \<and> source pcmInfo = name pcmItem"
proof -
  have fr1: "localeDisplayInfo exampleEnv ''fr'' = Inr frInfo" by code_simp
  have fr2: "findConfig exampleEnv ''fr'' = Some frItem" by code_simp
  have fr3: "translate exampleEnv ''language-fr'' = ''Franse''" by code_simp
  have es1: "localeDisplayInfo exampleEnv ''es'' = Inr esInfo" by code_simp
  have es2: "findConfig exampleEnv ''es'' = Some esItem" by code_simp
  have es3: "translate exampleEnv ''language-es'' = ''language-es''" by code_simp
  have es4: "displayNameOf exampleEnv ''en'' ''es'' = Some ''Spanish''" by code_simp
  have pcm1: "localeDisplayInfo exampleEnv ''pcm'' = Inr pcmInfo" by code_simp
  have pcm2: "findConfig exampleEnv ''pcm'' = Some pcmItem" by code_simp
  have pcm3: "translate exampleEnv ''language-pcm'' = ''language-pcm''" by code_simp
  have pcm4: "displayNameOf exampleEnv ''en'' ''pcm'' = Some ''pcm''" by code_simp
  have rl: "routerLocale exampleEnv = ''en''" by code_simp
  have lo: "toLowerCase ''fr'' = ''fr''" "toLowerCase ''es'' = ''es''"
    "toLowerCase ''pcm'' = ''pcm''" by code_simp+
  from source_precedence [OF fr1 fr2] fr3 lo have "source frInfo = ''Franse''"
    by simp
  moreover from source_precedence [OF es1 es2] es3 es4 rl lo have "source esInfo = ''Spanish''"
    by simp
  moreover from source_precedence [OF pcm1 pcm2] pcm3 pcm4 rl lo
  have "source pcmInfo = name pcmItem"
    by simp
  ultimately show ?thesis
    using fr1 fr2 fr3 es1 es2 es3 es4 pcm1 pcm2 pcm3 pcm4 by simp
qed

text \<open>
  C3, as the code has it. For a locale code \<open>lc\<close> that resolves to a record: \<open>target\<close> is
  the configured \<open>localName\<close> when the configuration supplies a non-empty one; when
  \<open>localName\<close> is missing or empty, \<open>target\<close> is the platform's name for \<open>lc\<close> in locale
  \<open>lc\<close> itself.
\<close>

theorem target_precedence:
  assumes "localeDisplayInfo e lc = Inr r" and "findConfig e lc = Some item"
  shows "(\<forall>n. localName item = Some n \<and> n \<noteq> [] \<longrightarrow> target r = n) \<and>
         (localName item = None \<or> localName item = Some [] \<longrightarrow>
            Some (target r) = displayNameOf e lc lc)"
proof -
  from assms have "targetOf e item lc = Some (target r)"
    by (auto elim: localeDisplayInfo_Inr)
  then show ?thesis
    by (auto simp: targetOf_def orString_def falsy_def split: if_splits)
qed

theorem target_precedence_witness:
  "localeDisplayInfo exampleEnv ''es'' = Inr esInfo \<and> findConfig exampleEnv ''es'' = Some esItem \<and>
   localName esItem = Some ''Espanol'' \<and> target esInfo = ''Espanol'' \<and>
   localeDisplayInfo exampleEnv ''pcm'' = Inr pcmInfo \<and> findConfig exampleEnv ''pcm'' = Some pcmItem \<and>
   localName pcmItem = None \<and> displayNameOf exampleEnv ''pcm'' ''pcm'' = Some ''pcm'' \<and>
   target pcmInfo = ''pcm''"
proof -
  have es1: "localeDisplayInfo exampleEnv ''es'' = Inr esInfo" by code_simp
  have es2: "findConfig exampleEnv ''es'' = Some esItem" by code_simp
  have es3: "localName esItem = Some ''Espanol''" by code_simp
  have pcm1: "localeDisplayInfo exampleEnv ''pcm'' = Inr pcmInfo" by code_simp
  have pcm2: "findConfig exampleEnv ''pcm'' = Some pcmItem" by code_simp
  have pcm3: "localName pcmItem = None" by code_simp
  have pcm4: "displayNameOf exampleEnv ''pcm'' ''pcm'' = Some ''pcm''" by code_simp
  from target_precedence [OF es1 es2] es3 have "target esInfo = ''Espanol''"
    by simp
  moreover from target_precedence [OF pcm1 pcm2] pcm3 pcm4 have "target pcmInfo = ''pcm''"
    by simp
  ultimately show ?thesis using es1 es2 es3 pcm1 pcm2 pcm3 pcm4 by simp
qed

text \<open>
  C3 as the spec states it fails: the entry for \<open>fr\<close> supplies the \<open>localName\<close> \<open>""\<close>, and
  the record's \<open>target\<close> is the platform's \<open>francais\<close>, not the supplied value.
\<close>

theorem target_empty_localName_counterexample:
  "findConfig exampleEnv ''fr'' = Some frItem \<and>
   localName frItem = Some [] \<and>
   localeDisplayInfo exampleEnv ''fr'' = Inr frInfo \<and>
   target frInfo = ''francais'' \<and>
   Some (target frInfo) \<noteq> localName frItem"
  by code_simp

text \<open>
  C9. When the configuration entry of a locale code \<open>lc\<close> has the empty string as
  \<open>localName\<close>, the target name computed is the platform's name for \<open>lc\<close> in locale \<open>lc\<close>;
  a record returned for \<open>lc\<close> carries that name, which is not empty.
\<close>

theorem empty_localName_is_absent:
  assumes "findConfig e lc = Some item" and "localName item = Some []"
  shows "targetOf e item lc = displayNameOf e lc lc \<and>
         (\<forall>r. localeDisplayInfo e lc = Inr r \<longrightarrow>
            Some (target r) = displayNameOf e lc lc \<and> target r \<noteq> [])"
proof -
  from assms(2) have t: "targetOf e item lc = displayNameOf e lc lc"
    by (simp add: targetOf_def orString_def falsy_def)
  moreover have "Some (target r) = displayNameOf e lc lc \<and> target r \<noteq> []"
    if "localeDisplayInfo e lc = Inr r" for r
    using that assms(1) t by (auto elim: localeDisplayInfo_Inr)
  ultimately show ?thesis by blast
qed

theorem empty_localName_is_absent_witness:
  "findConfig exampleEnv ''fr'' = Some frItem \<and> localName frItem = Some [] \<and>
   targetOf exampleEnv frItem ''fr'' = Some ''francais'' \<and>
   localeDisplayInfo exampleEnv ''fr'' = Inr frInfo \<and>
   Some (target frInfo) = displayNameOf exampleEnv ''fr'' ''fr'' \<and> target frInfo \<noteq> []"
proof -
  have h1: "findConfig exampleEnv ''fr'' = Some frItem" by code_simp
  have h2: "localName frItem = Some []" by code_simp
  have h3: "localeDisplayInfo exampleEnv ''fr'' = Inr frInfo" by code_simp
  have h4: "displayNameOf exampleEnv ''fr'' ''fr'' = Some ''francais''" by code_simp
  from empty_localName_is_absent [OF h1 h2] h3 h4 h1 h2 show ?thesis
    by simp
qed

section \<open>Missing display names\<close>

text \<open>
  C4. When a locale code has a configuration entry and neither its source nor its
  target name resolves to a non-empty string, resolving it raises the
  missing-display-name error. When the resolver returns a list for the supported locale
  codes, the list has exactly one record for each code, and every record has a non-empty
  \<open>source\<close> and a non-empty \<open>target\<close>.
\<close>

theorem display_names_present:
  "(findConfig e lc = Some item \<and> falsy (sourceOf e item lc) \<and> falsy (targetOf e item lc) \<longrightarrow>
      localeDisplayInfo e lc = Inl (MissingLanguageDisplayName lc)) \<and>
   (displayNames e (Some ls) = Inr rs \<longrightarrow>
      length rs = length ls \<and> mset (map localeChoice rs) = mset ls \<and>
      (\<forall>r\<in>set rs. source r \<noteq> [] \<and> target r \<noteq> []))"
proof (intro conjI impI)
  assume "findConfig e lc = Some item \<and> falsy (sourceOf e item lc) \<and> falsy (targetOf e item lc)"
  then show "localeDisplayInfo e lc = Inl (MissingLanguageDisplayName lc)"
    by (auto simp: missing_display_name_iff)
next
  assume a: "displayNames e (Some ls) = Inr rs"
  then obtain qs where qs: "list_all2 (\<lambda>lc r. localeDisplayInfo e lc = Inr r) ls qs"
    and rs: "rs = ranker qs"
    by (rule displayNames_Inr)
  from qs have m: "map localeChoice qs = ls"
    and ne: "\<forall>r\<in>set qs. source r \<noteq> [] \<and> target r \<noteq> []"
    using resolved_list by blast+
  have ms: "mset rs = mset qs"
    by (simp add: rs ranker_def mset_sortBy)
  then have "length rs = length qs"
    by (metis size_mset)
  with m show "length rs = length ls"
    by (metis length_map)
  from ms have "mset (map localeChoice rs) = mset (map localeChoice qs)"
    by (metis mset_map)
  with m show "mset (map localeChoice rs) = mset ls"
    by simp
  from ne show "\<forall>r\<in>set rs. source r \<noteq> [] \<and> target r \<noteq> []"
    by (simp add: rs set_ranker)
qed

theorem display_names_present_witness:
  "findConfig exampleEnv ''xx'' = Some xxItem \<and>
   falsy (sourceOf exampleEnv xxItem ''xx'') \<and> falsy (targetOf exampleEnv xxItem ''xx'') \<and>
   localeDisplayInfo exampleEnv ''xx'' = Inl (MissingLanguageDisplayName ''xx'') \<and>
   displayNames exampleEnv (Some [''pcm'', ''fr'', ''es'', ''en'']) =
     Inr [enInfo, esInfo, pcmInfo, frInfo] \<and>
   length [enInfo, esInfo, pcmInfo, frInfo] = length [''pcm'', ''fr'', ''es'', ''en''] \<and>
   mset (map localeChoice [enInfo, esInfo, pcmInfo, frInfo]) = mset [''pcm'', ''fr'', ''es'', ''en''] \<and>
   source enInfo \<noteq> [] \<and> target enInfo \<noteq> [] \<and> source esInfo \<noteq> [] \<and> target esInfo \<noteq> [] \<and>
   source pcmInfo \<noteq> [] \<and> target pcmInfo \<noteq> [] \<and> source frInfo \<noteq> [] \<and> target frInfo \<noteq> []"
proof -
  have h1: "findConfig exampleEnv ''xx'' = Some xxItem" by code_simp
  have h2: "falsy (sourceOf exampleEnv xxItem ''xx'')" by code_simp
  have h3: "falsy (targetOf exampleEnv xxItem ''xx'')" by code_simp
  have h4: "displayNames exampleEnv (Some [''pcm'', ''fr'', ''es'', ''en'']) =
     Inr [enInfo, esInfo, pcmInfo, frInfo]" by code_simp
  note t = display_names_present [of exampleEnv "''xx''" xxItem
      "[''pcm'', ''fr'', ''es'', ''en'']" "[enInfo, esInfo, pcmInfo, frInfo]"]
  from t h1 h2 h3 have "localeDisplayInfo exampleEnv ''xx'' = Inl (MissingLanguageDisplayName ''xx'')"
    by blast
  moreover from t h4 have
    "length [enInfo, esInfo, pcmInfo, frInfo] = length [''pcm'', ''fr'', ''es'', ''en''] \<and>
     mset (map localeChoice [enInfo, esInfo, pcmInfo, frInfo]) = mset [''pcm'', ''fr'', ''es'', ''en''] \<and>
     (\<forall>r\<in>set [enInfo, esInfo, pcmInfo, frInfo]. source r \<noteq> [] \<and> target r \<noteq> [])"
    by blast
  ultimately show ?thesis using h1 h2 h3 h4 by simp
qed

section \<open>Configuration errors\<close>

text \<open>
  C5. Resolving one locale code raises the configuration error exactly when the
  configuration table has no entry with that code; with an entry, it never does.
\<close>

theorem missing_config_iff:
  "(localeDisplayInfo e lc = Inl (MissingI18nConfig lc)) = (lc \<notin> code ` set (i18nConfig e)) \<and>
   (lc \<in> code ` set (i18nConfig e) \<longrightarrow>
      (\<forall>x. localeDisplayInfo e lc \<noteq> Inl (MissingI18nConfig x)))"
proof -
  have "(findConfig e lc = None) = (lc \<notin> code ` set (i18nConfig e))"
    by (auto simp: findConfig_def find_None_iff)
  then show ?thesis
    by (auto simp: localeDisplayInfo_def split: option.splits prod.splits if_splits)
qed

theorem missing_config_iff_witness:
  "''de'' \<notin> code ` set (i18nConfig exampleEnv) \<and>
   localeDisplayInfo exampleEnv ''de'' = Inl (MissingI18nConfig ''de'') \<and>
   ''xx'' \<in> code ` set (i18nConfig exampleEnv) \<and>
   localeDisplayInfo exampleEnv ''xx'' \<noteq> Inl (MissingI18nConfig ''xx'')"
proof -
  have cs: "code ` set (i18nConfig exampleEnv) = {''en'', ''es'', ''fr'', ''pcm'', ''xx''}"
    by (simp add: exampleEnv_def enItem_def esItem_def frItem_def pcmItem_def xxItem_def)
  have de: "''de'' \<notin> code ` set (i18nConfig exampleEnv)"
    unfolding cs by simp
  have xx: "''xx'' \<in> code ` set (i18nConfig exampleEnv)"
    unfolding cs by simp
  from missing_config_iff [of exampleEnv "''de''"] de
  have "localeDisplayInfo exampleEnv ''de'' = Inl (MissingI18nConfig ''de'')"
    by blast
  moreover from missing_config_iff [of exampleEnv "''xx''"] xx
  have "localeDisplayInfo exampleEnv ''xx'' \<noteq> Inl (MissingI18nConfig ''xx'')"
    by blast
  ultimately show ?thesis using de xx by blast
qed

section \<open>Ranking\<close>

text \<open>
  C6. For every list of resolved records, the ranked list is sorted by
  \<open>approvalProgress\<close>, largest first, and the sort is stable: for each value of
  \<open>approvalProgress\<close>, the records with that value appear in the order of the input. The
  ranked list holds the same records as the input.
\<close>

theorem ranker_sorted_stable:
  "sorted_wrt (\<lambda>a b. approvalProgress b \<le> approvalProgress a) (ranker rs) \<and>
   (\<forall>k. filter (\<lambda>r. approvalProgress r = k) (ranker rs) =
        filter (\<lambda>r. approvalProgress r = k) rs) \<and>
   mset (ranker rs) = mset rs"
proof (intro conjI allI)
  show "sorted_wrt (\<lambda>a b. approvalProgress b \<le> approvalProgress a) (ranker rs)"
    by (rule sorted_ranker)
  show "filter (\<lambda>r. approvalProgress r = k) (ranker rs) =
        filter (\<lambda>r. approvalProgress r = k) rs" for k
    by (rule filter_ranker)
  show "mset (ranker rs) = mset rs"
    by (simp add: ranker_def mset_sortBy)
qed

section \<open>Filtering\<close>




section \<open>Activating an item\<close>

text \<open>
  C8. Activating the rendered item of a record navigates to the current path under the
  record's locale code and then runs \<open>handleClose\<close> when the caller supplied it, and the
  menu's own \<open>onClose\<close> otherwise. On the recording state, the trace is the navigation
  followed by exactly one of the two close events.
\<close>

theorem activate_navigates_then_closes:
  assumes "i < length names"
  shows "activate navigate (renderedItems asPath handleClose onClose names ! i) s =
           (case handleClose of
              Some h \<Rightarrow> h (navigate asPath (localeChoice (names ! i)) s)
            | None \<Rightarrow> onClose (navigate asPath (localeChoice (names ! i)) s)) \<and>
         activate logNavigate (renderedItems asPath (Some logHandleClose) logOnClose names ! i) [] =
           [Navigated asPath (localeChoice (names ! i)), HandleCloseCalled] \<and>
         activate logNavigate (renderedItems asPath None logOnClose names ! i) [] =
           [Navigated asPath (localeChoice (names ! i)), OnCloseCalled]"
  using assms
  by (simp add: renderedItems_def itemProps_def activate_def onMenuClose_def
      logNavigate_def logHandleClose_def logOnClose_def split: option.splits)

theorem activate_navigates_then_closes_witness:
  "(1::nat) < length [enInfo, esInfo] \<and>
   activate logNavigate (renderedItems ''/wallets/'' (Some logHandleClose) logOnClose [enInfo, esInfo] ! 1) [] =
     [Navigated ''/wallets/'' ''es'', HandleCloseCalled] \<and>
   activate logNavigate (renderedItems ''/wallets/'' None logOnClose [enInfo, esInfo] ! 1) [] =
     [Navigated ''/wallets/'' ''es'', OnCloseCalled]"
proof -
  have h: "(1::nat) < length [enInfo, esInfo]" by simp
  have l: "localeChoice ([enInfo, esInfo] ! 1) = ''es''" by (simp add: esInfo_def)
  from activate_navigates_then_closes [OF h, of logNavigate "''/wallets/''" None logOnClose "[]"] l h
  show ?thesis by (simp add: logNavigate_def logOnClose_def)
qed

section \<open>No locale list\<close>

text \<open>
  C10. When the router supplies no locale list, nothing is thrown: the resolved list is
  empty, and so is the filtered list, for every filter string.
\<close>

theorem no_locales_empty:
  "displayNames e None = Inr [] \<and> filteredDisplayNames e None F = Inr []"
  by (simp add: displayNames_def filteredDisplayNames_def filteredNames_def)

end
